theory Spec2Isabelle
  imports Complex_Main
begin

section \<open>Python values, strings and exceptions\<close>

text \<open>
  The records, metadata and field values that flow through the pipeline are JSON-shaped
  Python objects (\<^verbatim>\<open>Dict[str, Any]\<close> in the source's annotations). A dictionary
  is an association list in insertion order, which is the order \<^verbatim>\<open>.items()\<close>
  iterates in. A \<^typ>\<open>char\<close> stands for a code point below 256.
\<close>

datatype pyval =
    PNone
  | PBool bool
  | PInt int
  | PFloat real
  | PStr string
  | PList "pyval list"
  | PDict "(string \<times> pyval) list"

type_synonym pydict = "(string \<times> pyval) list"

text \<open>An exception carries its class name and its message (\<^verbatim>\<open>str(e)\<close>).\<close>

datatype exn = Exn string string

fun exn_str :: "exn \<Rightarrow> string" where
  "exn_str (Exn cls msg) = msg"

text \<open>\<^verbatim>\<open>str.isspace\<close> on the code points below 256.\<close>

definition is_space :: "char \<Rightarrow> bool" where
  "is_space c \<longleftrightarrow> (of_char c :: nat) \<in> {9, 10, 11, 12, 13, 28, 29, 30, 31, 32, 133, 160}"

text \<open>\<^verbatim>\<open>s.strip()\<close>: drop the whitespace at both ends.\<close>

definition strip :: "string \<Rightarrow> string" where
  "strip s = rev (dropWhile is_space (rev (dropWhile is_space s)))"

text \<open>\<^verbatim>\<open>sep.join(parts)\<close>.\<close>

fun join :: "string \<Rightarrow> string list \<Rightarrow> string" where
  "join sep [] = []"
| "join sep [x] = x"
| "join sep (x # y # ys) = x @ sep @ join sep (y # ys)"

text \<open>Decimal rendering of Python's unbounded integers (\<^verbatim>\<open>str(n)\<close>).\<close>

definition digit_char :: "nat \<Rightarrow> char" where
  "digit_char d = ''0123456789'' ! d"

fun str_nat :: "nat \<Rightarrow> string" where
  "str_nat n = (if n < 10 then [digit_char n] else str_nat (n div 10) @ [digit_char (n mod 10)])"

declare str_nat.simps [simp del]

definition str_int :: "int \<Rightarrow> string" where
  "str_int i = (if i < 0 then CHR ''-'' # str_nat (nat (- i)) else str_nat (nat i))"

text \<open>
  \<^verbatim>\<open>f"{value}"\<close>. Strings, integers, booleans and \<^verbatim>\<open>None\<close> are rendered here;
  the rendering of floats and of containers (Python's shortest round-trip float
  representation and \<^verbatim>\<open>repr\<close> of nested objects) is the parameter \<open>other\<close>.
\<close>

fun py_str :: "(pyval \<Rightarrow> string) \<Rightarrow> pyval \<Rightarrow> string" where
  "py_str other (PStr s) = s"
| "py_str other (PInt i) = str_int i"
| "py_str other (PBool b) = (if b then ''True'' else ''False'')"
| "py_str other PNone = ''None''"
| "py_str other v = other v"

fun type_name :: "pyval \<Rightarrow> string" where
  "type_name PNone = ''NoneType''"
| "type_name (PBool b) = ''bool''"
| "type_name (PInt i) = ''int''"
| "type_name (PFloat x) = ''float''"
| "type_name (PStr s) = ''str''"
| "type_name (PList xs) = ''list''"
| "type_name (PDict d) = ''dict''"

text \<open>\<^verbatim>\<open>d.get(key, default)\<close>.\<close>

definition dict_get :: "pydict \<Rightarrow> string \<Rightarrow> pyval \<Rightarrow> pyval" where
  "dict_get d k dflt = (case map_of d k of None \<Rightarrow> dflt | Some v \<Rightarrow> v)"

section \<open>Text normalizer (cosmos\_airtable\_ingestion\_script.py)\<close>

text \<open>
  \<^verbatim>\<open>isinstance(value, (str, int, float))\<close>: \<^verbatim>\<open>bool\<close> is a subclass of
  \<^verbatim>\<open>int\<close>, so booleans pass the test.
\<close>

fun isinstance_str_int_float :: "pyval \<Rightarrow> bool" where
  "isinstance_str_int_float (PStr s) = True"
| "isinstance_str_int_float (PInt i) = True"
| "isinstance_str_int_float (PBool b) = True"
| "isinstance_str_int_float (PFloat x) = True"
| "isinstance_str_int_float v = False"

fun isinstance_str :: "pyval \<Rightarrow> bool" where
  "isinstance_str (PStr s) = True"
| "isinstance_str v = False"

text \<open>
  \<^verbatim>\<open>isinstance(value, list) and all(isinstance(i, str) for i in value)\<close>.
\<close>

fun is_str_list :: "pyval \<Rightarrow> bool" where
  "is_str_list (PList xs) = list_all isinstance_str xs"
| "is_str_list v = False"

text \<open>The strings \<^verbatim>\<open>', '.join(value)\<close> joins, once the test above has passed.\<close>

fun str_items :: "pyval \<Rightarrow> string list" where
  "str_items (PList xs) = [s. PStr s \<leftarrow> xs]"
| "str_items v = []"

text \<open>The inner loop over \<^verbatim>\<open>fields.items()\<close>, appending to \<^verbatim>\<open>text_parts\<close>.\<close>

fun fields_loop :: "(pyval \<Rightarrow> string) \<Rightarrow> pydict \<Rightarrow> string list \<Rightarrow> string list" where
  "fields_loop other [] text_parts = text_parts"
| "fields_loop other ((field_name, v) # rest) text_parts =
     (if isinstance_str_int_float v then
        fields_loop other rest (text_parts @ [field_name @ '': '' @ py_str other v])
      else if is_str_list v then
        fields_loop other rest (text_parts @ [field_name @ '': '' @ join '', '' (str_items v)])
      else fields_loop other rest text_parts)"

text \<open>The body of the outer loop for a record whose \<^verbatim>\<open>fields\<close> is the dictionary given.\<close>

definition full_text :: "(pyval \<Rightarrow> string) \<Rightarrow> pydict \<Rightarrow> string" where
  "full_text other fields = strip (join ''. '' (fields_loop other fields []))"

text \<open>
  \<^verbatim>\<open>fields = record.get('fields', {})\<close> followed by \<^verbatim>\<open>fields.items()\<close>, which
  raises \<^verbatim>\<open>AttributeError\<close> on anything that is not a dictionary.
\<close>

definition record_fields :: "pydict \<Rightarrow> exn + pydict" where
  "record_fields record =
     (case dict_get record ''fields'' (PDict []) of
        PDict d \<Rightarrow> Inr d
      | v \<Rightarrow> Inl (Exn ''AttributeError''
                 ([CHR 0x27] @ type_name v @ [CHR 0x27] @ '' object has no attribute '' @
                  [CHR 0x27] @ ''items'' @ [CHR 0x27])))"

fun records_loop :: "(pyval \<Rightarrow> string) \<Rightarrow> pydict list \<Rightarrow> string list \<Rightarrow> exn + string list" where
  "records_loop other [] prepared_texts = Inr prepared_texts"
| "records_loop other (record # rest) prepared_texts =
     (case record_fields record of
        Inl e \<Rightarrow> Inl e
      | Inr fields \<Rightarrow> records_loop other rest (prepared_texts @ [full_text other fields]))"

definition prepare_texts_for_encoding :: "(pyval \<Rightarrow> string) \<Rightarrow> pydict list \<Rightarrow> exn + string list" where
  "prepare_texts_for_encoding other records = records_loop other records []"

text \<open>
  The spec's data model makes the \<^verbatim>\<open>fields\<close> of a Record a mapping. The source also
  accepts a record without the key (\<^verbatim>\<open>.get('fields', {})\<close>).
\<close>

definition fields_is_mapping :: "pydict \<Rightarrow> bool" where
  "fields_is_mapping record =
     (case map_of record ''fields'' of None \<Rightarrow> True | Some (PDict d) \<Rightarrow> True | Some v \<Rightarrow> False)"

definition fields_of :: "pydict \<Rightarrow> pydict" where
  "fields_of record = (case dict_get record ''fields'' (PDict []) of PDict d \<Rightarrow> d | v \<Rightarrow> [])"

subsection \<open>The normalizer as the spec words it\<close>

text \<open>
  Spec 4.1: a field is included only if its value is a scalar (string, number, boolean)
  or a list whose every element is a string; the fragment is the field name, a colon and
  a space, and the value (a list joined with a comma and a space); the fragments are
  joined with a full stop and a space, and the result is stripped.
\<close>

fun eligible :: "pyval \<Rightarrow> bool" where
  "eligible (PStr s) = True"
| "eligible (PInt i) = True"
| "eligible (PFloat x) = True"
| "eligible (PBool b) = True"
| "eligible (PList xs) = list_all (\<lambda>x. case x of PStr s \<Rightarrow> True | _ \<Rightarrow> False) xs"
| "eligible v = False"

fun fragment :: "(pyval \<Rightarrow> string) \<Rightarrow> string \<times> pyval \<Rightarrow> string" where
  "fragment other (field_name, PList xs) = field_name @ '': '' @ join '', '' [s. PStr s \<leftarrow> xs]"
| "fragment other (field_name, v) = field_name @ '': '' @ py_str other v"

definition normalize :: "(pyval \<Rightarrow> string) \<Rightarrow> pydict \<Rightarrow> string" where
  "normalize other fields =
     strip (join ''. '' (map (fragment other) (filter (\<lambda>(k, v). eligible v) fields)))"

section \<open>External services\<close>

text \<open>
  The embedding model, the vector index and the generative model are third-party
  services. Each is a function that returns its value or the exception it raises, and
  every call made to one of them is logged as an event, in order, so that what was
  called and how often is part of a function's result. Printing is not modelled.
\<close>

definition EMBEDDING_MODEL_NAME :: string where
  "EMBEDDING_MODEL_NAME = ''all-MiniLM-L12-v2''"

definition INDEX_NAME :: string where
  "INDEX_NAME = ''cosmos-airtable-index''"

definition NAMESPACE :: string where
  "NAMESPACE = ''airtable-namespace''"

type_synonym vector = "real list"

text \<open>A match of an index query: \<^verbatim>\<open>metadata\<close> may be \<^verbatim>\<open>None\<close>.\<close>

record match =
  match_id :: string
  match_score :: real
  match_metadata :: "pydict option"

datatype event =
    LoadModel string
  | Encode "string list"
  | IndexQuery vector int bool string
  | Generate string

text \<open>\<^verbatim>\<open>model.encode(texts, convert_to_numpy=True)\<close> of a loaded model.\<close>

type_synonym encoder = "string list \<Rightarrow> exn + vector list"

text \<open>
  \<^verbatim>\<open>index.query(vector=, top_k=, include_metadata=, namespace=)\<close> of an index handle,
  giving \<^verbatim>\<open>results.matches\<close>.
\<close>

type_synonym index_handle = "vector \<Rightarrow> int \<Rightarrow> bool \<Rightarrow> string \<Rightarrow> exn + match list"

text \<open>\<^verbatim>\<open>model.generate_content(prompt).text\<close> of a generative model.\<close>

type_synonym generative_model = "string \<Rightarrow> exn + string"

record platform =
  environ :: "(string \<times> string) list"
  str_other :: "pyval \<Rightarrow> string"
  format_3f :: "real \<Rightarrow> string"
  SentenceTransformer :: "string \<Rightarrow> exn + encoder"
  pc_has_index :: "string \<Rightarrow> exn + bool"
  pc_Index :: "string \<Rightarrow> index_handle"
  GenerativeModel :: "string \<Rightarrow> generative_model"

definition is_load :: "event \<Rightarrow> bool" where
  "is_load ev = (case ev of LoadModel name \<Rightarrow> True | _ \<Rightarrow> False)"

text \<open>How many times a model instance was constructed in a run.\<close>

definition model_loads :: "event list \<Rightarrow> nat" where
  "model_loads evs = length (filter is_load evs)"

section \<open>Embedding and index query (query\_pinecone\_db.py)\<close>

text \<open>\<^verbatim>\<open>api_key = os.environ.get(KEY)\<close> followed by \<^verbatim>\<open>if not api_key\<close>.\<close>

definition env_missing :: "platform \<Rightarrow> string \<Rightarrow> bool" where
  "env_missing plat key = (case map_of (environ plat) key of None \<Rightarrow> True | Some v \<Rightarrow> v = [])"

definition setup_pinecone :: "platform \<Rightarrow> exn + index_handle" where
  "setup_pinecone plat =
     (if env_missing plat ''PINECONE_API_KEY'' then
        Inl (Exn ''EnvironmentError''
          (''PINECONE_API_KEY environment variable not set. '' @
           ''Please configure your Pinecone API key.''))
      else
        (case pc_has_index plat INDEX_NAME of
           Inl e \<Rightarrow> Inl e
         | Inr present \<Rightarrow>
             if \<not> present then
               Inl (Exn ''EnvironmentError''
                 (''Index '' @ [CHR 0x27] @ INDEX_NAME @ [CHR 0x27] @
                  '' not found. Please run the ingestion script first.''))
             else Inr (pc_Index plat INDEX_NAME)))"

text \<open>
  \<^verbatim>\<open>embed_query\<close> constructs the model, encodes the one-element batch and takes
  row 0 of the result.
\<close>

definition embed_query :: "platform \<Rightarrow> string \<Rightarrow> (exn + vector) \<times> event list" where
  "embed_query plat query =
     (case SentenceTransformer plat EMBEDDING_MODEL_NAME of
        Inl e \<Rightarrow> (Inl e, [LoadModel EMBEDDING_MODEL_NAME])
      | Inr model \<Rightarrow>
          (case model [query] of
             Inl e \<Rightarrow> (Inl e, [LoadModel EMBEDDING_MODEL_NAME, Encode [query]])
           | Inr vectors \<Rightarrow>
               (case vectors of
                  [] \<Rightarrow> Inl (Exn ''IndexError'' ''index 0 is out of bounds for axis 0 with size 0'')
                | v # rest \<Rightarrow> Inr v,
                [LoadModel EMBEDDING_MODEL_NAME, Encode [query]])))"

definition query_pinecone ::
  "index_handle \<Rightarrow> vector \<Rightarrow> int \<Rightarrow> bool \<Rightarrow> (exn + match list) \<times> event list" where
  "query_pinecone index query_vector top_k include_metadata =
     (index query_vector top_k include_metadata NAMESPACE,
      [IndexQuery query_vector top_k include_metadata NAMESPACE])"

section \<open>Batch embedding (cosmos\_airtable\_ingestion\_script.py)\<close>

text \<open>
  \<^verbatim>\<open>generate_vectors\<close> constructs the model and encodes the whole batch in one call.
  The progress message reads \<^verbatim>\<open>vectors.shape[1]\<close>, which an array without rows does
  not have.
\<close>

definition generate_vectors :: "platform \<Rightarrow> string list \<Rightarrow> (exn + vector list) \<times> event list" where
  "generate_vectors plat texts =
     (case SentenceTransformer plat EMBEDDING_MODEL_NAME of
        Inl e \<Rightarrow> (Inl e, [LoadModel EMBEDDING_MODEL_NAME])
      | Inr model \<Rightarrow>
          (case model texts of
             Inl e \<Rightarrow> (Inl e, [LoadModel EMBEDDING_MODEL_NAME, Encode texts])
           | Inr vectors \<Rightarrow>
               (if vectors = [] then Inl (Exn ''IndexError'' ''tuple index out of range'')
                else Inr vectors,
                [LoadModel EMBEDDING_MODEL_NAME, Encode texts])))"

section \<open>The search service (backend/backend.py)\<close>

record SearchRequest =
  query :: string
  top_k :: int

text \<open>The request model: \<^verbatim>\<open>top_k: int = 5\<close>.\<close>

definition SearchRequest_init :: "string \<Rightarrow> int option \<Rightarrow> SearchRequest" where
  "SearchRequest_init q k = \<lparr>query = q, top_k = (case k of None \<Rightarrow> 5 | Some n \<Rightarrow> n)\<rparr>"

record SearchResult =
  score :: real
  result_id :: string
  metadata :: pydict

record SearchResponse =
  results :: "SearchResult list"
  response_query :: string
  total_results :: int
  ai_response :: string

datatype http_exception = HTTPException nat string

text \<open>The module's globals, \<^verbatim>\<open>None\<close> until the startup event assigns them.\<close>

record app_state =
  pinecone_index :: "index_handle option"
  gemini_model :: "generative_model option"

definition initial_state :: app_state where
  "initial_state = \<lparr>pinecone_index = None, gemini_model = None\<rparr>"

definition setup_gemini :: "platform \<Rightarrow> exn + generative_model" where
  "setup_gemini plat =
     (if env_missing plat ''GEMINI_API_KEY'' then
        Inl (Exn ''EnvironmentError''
          (''GEMINI_API_KEY environment variable not set. '' @
           ''Please configure your Gemini API key.''))
      else Inr (GenerativeModel plat ''gemini-2.0-flash-lite''))"

text \<open>
  The startup event re-raises what either setup raises, so the application serves
  requests only in a state this function returns.
\<close>

definition startup_event :: "platform \<Rightarrow> exn + app_state" where
  "startup_event plat =
     (case setup_pinecone plat of
        Inl e \<Rightarrow> Inl e
      | Inr index \<Rightarrow>
          (case setup_gemini plat of
             Inl e \<Rightarrow> Inl e
           | Inr model \<Rightarrow> Inr \<lparr>pinecone_index = Some index, gemini_model = Some model\<rparr>))"

text \<open>One entry of \<^verbatim>\<open>context_parts\<close>; \<^verbatim>\<open>enumerate(search_results, 1)\<close> counts from 1.\<close>

definition context_part :: "platform \<Rightarrow> nat \<Rightarrow> SearchResult \<Rightarrow> string" where
  "context_part plat i result =
     ''Result '' @ str_nat i @ '' (Score: '' @ format_3f plat (score result) @ ''):\<newline>'' @
     py_str (str_other plat)
       (dict_get (metadata result) ''searchable_text'' (PStr ''No text available'')) @
     ''\<newline>''"

definition build_prompt :: "platform \<Rightarrow> string \<Rightarrow> SearchResult list \<Rightarrow> string" where
  "build_prompt plat q search_results =
     (let context_parts = map2 (context_part plat) [1 ..< Suc (length search_results)] search_results;
          context = join ''\<newline>'' context_parts
      in ''\<newline>You are a helpful assistant that answers questions based on the provided '' @
         ''search results from a user information database.\<newline>\<newline>'' @
         ''Original Query: '' @ q @ ''\<newline>\<newline>'' @
         ''Search Results:\<newline>'' @ context @ ''\<newline>\<newline>'' @
         ''Please provide a comprehensive, human-readable answer to the original query '' @
         ''based on the search results above. \<newline>'' @
         ''- Be specific and cite relevant details from the case studies\<newline>'' @
         ''- If the results don't contain enough information to fully answer the query, '' @
         ''mention this\<newline>'' @
         ''- Keep the response informative but concise\<newline>'' @
         ''- Use a professional, helpful tone\<newline>\<newline>'' @
         ''Answer:\<newline>'')"

text \<open>The string the \<^verbatim>\<open>except\<close> branch returns.\<close>

definition fallback_response :: "nat \<Rightarrow> string" where
  "fallback_response n =
     ''I found '' @ str_nat n @
     '' relevant results, but encountered an error generating a detailed response. '' @
     ''Please check the individual results below.''"

text \<open>
  \<^verbatim>\<open>generate_ai_response\<close>: the whole body is inside \<^verbatim>\<open>try\<close>, and every exception
  ends in the fallback. With no model (\<^verbatim>\<open>gemini_model\<close> is \<^verbatim>\<open>None\<close>) the call
  raises \<^verbatim>\<open>AttributeError\<close> before anything is sent.
\<close>

definition generate_ai_response ::
  "platform \<Rightarrow> generative_model option \<Rightarrow> string \<Rightarrow> SearchResult list \<Rightarrow> string \<times> event list" where
  "generate_ai_response plat model q search_results =
     (let prompt = build_prompt plat q search_results in
      case model of
        None \<Rightarrow> (fallback_response (length search_results), [])
      | Some generate_content \<Rightarrow>
          (case generate_content prompt of
             Inl e \<Rightarrow> (fallback_response (length search_results), [Generate prompt])
           | Inr text \<Rightarrow> (text, [Generate prompt])))"

text \<open>\<^verbatim>\<open>match.metadata or {}\<close>: \<^verbatim>\<open>None\<close> and the empty dictionary are falsy.\<close>

definition metadata_or_empty :: "pydict option \<Rightarrow> pydict" where
  "metadata_or_empty m = (case m of None \<Rightarrow> [] | Some d \<Rightarrow> if d = [] then [] else d)"

definition to_search_result :: "match \<Rightarrow> SearchResult" where
  "to_search_result m =
     \<lparr>score = match_score m, result_id = match_id m,
      metadata = metadata_or_empty (match_metadata m)\<rparr>"

text \<open>
  \<^verbatim>\<open>search_endpoint\<close>: an \<^verbatim>\<open>HTTPException\<close> raised inside is re-raised as it is, any
  other exception becomes status 500 with the exception's message.
\<close>

definition search_failed :: "exn \<Rightarrow> http_exception" where
  "search_failed e = HTTPException 500 (''Search failed: '' @ exn_str e)"

definition search_endpoint ::
  "platform \<Rightarrow> app_state \<Rightarrow> SearchRequest \<Rightarrow> (http_exception + SearchResponse) \<times> event list" where
  "search_endpoint plat s request =
     (case pinecone_index s of
        None \<Rightarrow> (Inl (HTTPException 500 ''Pinecone not initialized''), [])
      | Some index \<Rightarrow>
          if strip (query request) = [] then
            (Inl (HTTPException 400 ''Query cannot be empty''), [])
          else
            (case embed_query plat (query request) of
               (Inl e, ev1) \<Rightarrow> (Inl (search_failed e), ev1)
             | (Inr query_vector, ev1) \<Rightarrow>
                 (case query_pinecone index query_vector (top_k request) True of
                    (Inl e, ev2) \<Rightarrow> (Inl (search_failed e), ev1 @ ev2)
                  | (Inr matches, ev2) \<Rightarrow>
                      (let search_results = map to_search_result matches;
                           (answer, ev3) =
                             generate_ai_response plat (gemini_model s) (query request)
                               search_results
                       in (Inr \<lparr>results = search_results,
                                response_query = query request,
                                total_results = int (length search_results),
                                ai_response = answer\<rparr>,
                           ev1 @ ev2 @ ev3)))))"

text \<open>
  The generative call fails: there is no model, or the model raises on the prompt
  (time-out, quota, a response without text).
\<close>

definition generation_fails :: "generative_model option \<Rightarrow> string \<Rightarrow> bool" where
  "generation_fails model prompt = (case model of None \<Rightarrow> True | Some g \<Rightarrow> isl (g prompt))"

subsection \<open>An example deployment\<close>

text \<open>
  A platform for evaluating the service on concrete requests: both credentials are set,
  the index exists and holds one vector, the index rejects a \<^verbatim>\<open>top_k\<close> that is not
  positive, and the generative model is out of quota.
\<close>

definition plat0 :: platform where
  "plat0 = \<lparr>environ = [(''PINECONE_API_KEY'', ''pk''), (''GEMINI_API_KEY'', ''gk'')],
            str_other = (\<lambda>v. []),
            format_3f = (\<lambda>x. []),
            SentenceTransformer = (\<lambda>name. Inr (\<lambda>texts. Inr (map (\<lambda>t. [1, 0]) texts))),
            pc_has_index = (\<lambda>name. Inr True),
            pc_Index = (\<lambda>name v k md ns.
               if k \<le> 0 then Inl (Exn ''PineconeApiException'' ''top_k must be positive'')
               else Inr (take (nat k)
                 [\<lparr>match_id = ''r1'', match_score = 1/2, match_metadata = None\<rparr>])),
            GenerativeModel = (\<lambda>name prompt. Inl (Exn ''ResourceExhausted'' ''quota''))\<rparr>"

definition state0 :: app_state where
  "state0 = \<lparr>pinecone_index = Some (pc_Index plat0 INDEX_NAME),
             gemini_model = Some (GenerativeModel plat0 ''gemini-2.0-flash-lite'')\<rparr>"

section \<open>The vector store and ingestion (cosmos\_airtable\_ingestion\_script.py)\<close>

text \<open>
  The vector store is the Pinecone service, reached through its client library; neither
  is part of the repository. Its state is modelled here from the spec's contract of the
  Vector Index (spec 3 and 4.3): a table of named indexes, each with its configuration
  and its stored entries, every entry filed under a namespace. The client is taken as
  connected: a missing credential and network failures are not modelled.
\<close>

record index_entry =
  entry_id :: string
  entry_values :: vector
  entry_metadata :: pydict

record index_state =
  index_vector_type :: string
  index_dimension :: nat
  index_metric :: string
  index_cloud :: string
  index_region :: string
  contents :: "(string \<times> index_entry) list"

type_synonym store = "(string \<times> index_state) list"

text \<open>
  Modelled from the spec: \<^verbatim>\<open>pc.has_index(name)\<close> of the missing client. Spec 4.3
  finds an index by its name only.
\<close>

definition has_index :: "store \<Rightarrow> string \<Rightarrow> bool" where
  "has_index st name = (map_of st name \<noteq> None)"

text \<open>
  Modelled from the spec: \<^verbatim>\<open>pc.create_index(...)\<close> of the missing client. It adds
  an empty index with the configuration given; a name that is taken is a conflict.
\<close>

definition create_index ::
  "store \<Rightarrow> string \<Rightarrow> string \<Rightarrow> nat \<Rightarrow> string \<Rightarrow> string \<Rightarrow> string \<Rightarrow> exn + store" where
  "create_index st name vector_type dimension metric cloud region =
     (if has_index st name then Inl (Exn ''PineconeApiException'' ''ALREADY_EXISTS'')
      else Inr (st @ [(name, \<lparr>index_vector_type = vector_type, index_dimension = dimension,
                              index_metric = metric, index_cloud = cloud,
                              index_region = region, contents = []\<rparr>)]))"

text \<open>
  Modelled from the spec: \<^verbatim>\<open>index.upsert(vectors, namespace)\<close> of the missing
  service. Spec 4.3: upsert replaces any existing entry sharing an id within the
  namespace; spec 3: one vector per id per namespace. Each entry of the batch, in order,
  removes what the namespace holds under its id and is stored.
\<close>

definition upsert_one ::
  "string \<Rightarrow> index_entry \<Rightarrow> (string \<times> index_entry) list \<Rightarrow> (string \<times> index_entry) list" where
  "upsert_one ns e cs =
     filter (\<lambda>(n, x). \<not> (n = ns \<and> entry_id x = entry_id e)) cs @ [(ns, e)]"

definition index_upsert :: "index_state \<Rightarrow> string \<Rightarrow> index_entry list \<Rightarrow> index_state" where
  "index_upsert idx ns entries = idx\<lparr>contents := fold (upsert_one ns) entries (contents idx)\<rparr>"

text \<open>The entries a namespace holds; a namespace nothing was written to holds none.\<close>

definition ns_entries :: "index_state \<Rightarrow> string \<Rightarrow> index_entry list" where
  "ns_entries idx ns = map snd (filter (\<lambda>(n, x). n = ns) (contents idx))"

text \<open>
  Modelled from the spec: \<^verbatim>\<open>describe_index_stats().total_vector_count\<close> of the
  missing service (spec 4.3, \<^verbatim>\<open>stats\<close>): the number of stored entries.
\<close>

definition total_vector_count :: "index_state \<Rightarrow> nat" where
  "total_vector_count idx = length (contents idx)"

text \<open>
  Modelled from the spec: \<^verbatim>\<open>index.query(vector, top_k, include_metadata, namespace)\<close>
  of the missing service. Spec 4.3: it returns at most \<^verbatim>\<open>top_k\<close> entries ranked by the
  index's fixed metric; \<^verbatim>\<open>top_k\<close> must be a positive integer; an empty or absent
  namespace gives the empty sequence. Spec 3: results are ordered by descending score.
  The metric is the parameter \<open>sim\<close> (cosine similarity for this index).
\<close>

definition to_match ::
  "(vector \<Rightarrow> vector \<Rightarrow> real) \<Rightarrow> vector \<Rightarrow> bool \<Rightarrow> index_entry \<Rightarrow> match" where
  "to_match sim v include_metadata e =
     \<lparr>match_id = entry_id e, match_score = sim v (entry_values e),
      match_metadata = (if include_metadata then Some (entry_metadata e) else None)\<rparr>"

definition index_query ::
  "(vector \<Rightarrow> vector \<Rightarrow> real) \<Rightarrow> index_state \<Rightarrow> string \<Rightarrow> vector \<Rightarrow> int \<Rightarrow> bool \<Rightarrow>
   exn + match list" where
  "index_query sim idx ns v k include_metadata =
     (if k \<le> 0 then Inl (Exn ''PineconeApiException'' ''top_k must be a positive integer'')
      else Inr (take (nat k)
             (sort_key (\<lambda>m. - match_score m)
                (map (to_match sim v include_metadata) (ns_entries idx ns)))))"

text \<open>The handle \<^verbatim>\<open>pc.Index(name)\<close> gives to an index, as the query functions use it.\<close>

definition index_handle_of :: "(vector \<Rightarrow> vector \<Rightarrow> real) \<Rightarrow> index_state \<Rightarrow> index_handle" where
  "index_handle_of sim idx =
     (\<lambda>v k include_metadata ns. index_query sim idx ns v k include_metadata)"

subsection \<open>Creating the index and writing the payload\<close>

text \<open>
  The first statement of \<^verbatim>\<open>insert_into_vector_db\<close>: the index is created, with
  dimension 384 and the cosine metric, unless the store already has one of that name.
\<close>

definition ensure_index :: "store \<Rightarrow> exn + store" where
  "ensure_index st =
     (if \<not> has_index st INDEX_NAME then
        create_index st INDEX_NAME ''dense'' 384 ''cosine'' ''aws'' ''us-east-1''
      else Inr st)"

text \<open>Writing an index back under its name.\<close>

fun store_put :: "string \<Rightarrow> index_state \<Rightarrow> store \<Rightarrow> store" where
  "store_put name idx [] = [(name, idx)]"
| "store_put name idx ((n, i) # rest) =
     (if n = name then (name, idx) # rest else (n, i) # store_put name idx rest)"

text \<open>\<^verbatim>\<open>pc.Index(name).upsert(vectors=entries, namespace=ns)\<close> on the store.\<close>

definition store_upsert :: "store \<Rightarrow> string \<Rightarrow> string \<Rightarrow> index_entry list \<Rightarrow> exn + store" where
  "store_upsert st name ns entries =
     (case map_of st name of
        None \<Rightarrow> Inl (Exn ''NotFoundException'' (''Index '' @ name @ '' not found''))
      | Some idx \<Rightarrow> Inr (store_put name (index_upsert idx ns entries) st))"

text \<open>An element of the payload \<^verbatim>\<open>create_vector_db_payload\<close> builds.\<close>

record payload_record =
  airtable_id :: string
  original_record :: pydict
  searchable_text :: string
  vector :: vector

definition to_pinecone_record :: "payload_record \<Rightarrow> index_entry" where
  "to_pinecone_record r =
     \<lparr>entry_id = airtable_id r,
      entry_values = vector r,
      entry_metadata = [(''airtable_id'', PStr (airtable_id r)),
                        (''searchable_text'', PStr (searchable_text r))]\<rparr>"

text \<open>
  \<^verbatim>\<open>insert_into_vector_db\<close>: create the index if absent, convert the payload, upsert
  it into \<^verbatim>\<open>airtable-namespace\<close>. The wait and the statistics printed at the end
  change nothing.
\<close>

definition insert_into_vector_db :: "store \<Rightarrow> payload_record list \<Rightarrow> exn + store" where
  "insert_into_vector_db st payload =
     (case ensure_index st of
        Inl e \<Rightarrow> Inl e
      | Inr st1 \<Rightarrow>
          (let pinecone_records = map to_pinecone_record payload
           in store_upsert st1 INDEX_NAME ''airtable-namespace'' pinecone_records))"

subsection \<open>Example indexes\<close>

text \<open>The index the ingestion script creates, and one of another shape.\<close>

definition dense384 :: index_state where
  "dense384 = \<lparr>index_vector_type = ''dense'', index_dimension = 384, index_metric = ''cosine'',
               index_cloud = ''aws'', index_region = ''us-east-1'', contents = []\<rparr>"

definition other_index :: index_state where
  "other_index = \<lparr>index_vector_type = ''dense'', index_dimension = 1536,
                  index_metric = ''euclidean'', index_cloud = ''gcp'',
                  index_region = ''europe-west4'', contents = []\<rparr>"

text \<open>A metric to evaluate queries with, and an index holding three entries.\<close>

definition dot :: "vector \<Rightarrow> vector \<Rightarrow> real" where
  "dot a b = sum_list (map2 (*) a b)"

definition index0 :: index_state where
  "index0 = index_upsert dense384 ''ns''
     [\<lparr>entry_id = ''r1'', entry_values = [0, 1], entry_metadata = []\<rparr>,
      \<lparr>entry_id = ''r2'', entry_values = [1, 0], entry_metadata = []\<rparr>,
      \<lparr>entry_id = ''r3'', entry_values = [1, 1], entry_metadata = []\<rparr>]"

section \<open>Properties of the text normalizer\<close>

lemma isinstance_str_case: "isinstance_str x = (case x of PStr s \<Rightarrow> True | _ \<Rightarrow> False)"
  by (cases x) simp_all

lemma fields_loop_acc:
  "fields_loop other fs acc =
     acc @ map (fragment other) (filter (\<lambda>(k, v). eligible v) fs)"
proof (induction fs arbitrary: acc)
  case Nil
  then show ?case by simp
next
  case (Cons kv fs)
  obtain k v where kv: "kv = (k, v)" by (cases kv)
  show ?case unfolding kv
    by (cases v) (simp_all add: Cons.IH isinstance_str_case [abs_def])
qed

lemma record_fields_mapping:
  "fields_is_mapping record \<Longrightarrow> record_fields record = Inr (fields_of record)"
  by (auto simp: fields_is_mapping_def record_fields_def fields_of_def dict_get_def
      split: option.splits pyval.splits)

lemma record_fields_raises:
  "\<not> fields_is_mapping record \<Longrightarrow>
   \<exists>msg. record_fields record = Inl (Exn ''AttributeError'' msg)"
  by (auto simp: fields_is_mapping_def record_fields_def dict_get_def
      split: option.splits pyval.splits)

lemma records_loop_acc:
  "list_all fields_is_mapping records \<Longrightarrow>
   records_loop other records acc =
     Inr (acc @ map (\<lambda>r. full_text other (fields_of r)) records)"
  by (induction records arbitrary: acc) (simp_all add: record_fields_mapping)

lemma records_loop_raises:
  "\<not> list_all fields_is_mapping records \<Longrightarrow>
   \<exists>msg. records_loop other records acc = Inl (Exn ''AttributeError'' msg)"
proof (induction records arbitrary: acc)
  case Nil
  then show ?case by simp
next
  case (Cons r rest)
  show ?case
  proof (cases "fields_is_mapping r")
    case True
    with Cons.prems have "\<not> list_all fields_is_mapping rest" by simp
    from Cons.IH [OF this] show ?thesis
      using True by (simp add: record_fields_mapping)
  next
    case False
    from record_fields_raises [OF this] show ?thesis by auto
  qed
qed

lemma fields_loop_skip:
  "list_all (\<lambda>(k, v). \<not> isinstance_str_int_float v \<and> \<not> is_str_list v) fs \<Longrightarrow>
   fields_loop other fs acc = acc"
  by (induction fs arbitrary: acc) auto

lemma strip_Nil: "strip [] = []"
  by (simp add: strip_def)

lemma full_text_no_eligible:
  "list_all (\<lambda>(k, v). \<not> isinstance_str_int_float v \<and> \<not> is_str_list v) fs \<Longrightarrow>
   full_text other fs = []"
  by (simp add: full_text_def fields_loop_skip strip_Nil)

text \<open>
  C2. For every record, the text normalizer includes a field exactly when its value is
  a scalar (string, number, boolean) or a list of strings only, emits the fragment
  \<^verbatim>\<open>"{field_name}: {value}"\<close> with a list joined by \<^verbatim>\<open>", "\<close>, joins the fragments
  with \<^verbatim>\<open>". "\<close> and strips the result: the loop of the source builds the list of
  fragments of the eligible fields, in order, and its text is the spec's \<open>normalize\<close>.
  The record with fields Name: Ada, Role: Engineer normalizes to
  \<^verbatim>\<open>"Name: Ada. Role: Engineer"\<close>.
\<close>

theorem normalizer_includes_eligible_fields:
  "fields_loop other fs [] = map (fragment other) (filter (\<lambda>(k, v). eligible v) fs)
   \<and> full_text other fs = normalize other fs
   \<and> prepare_texts_for_encoding other
        [[(''id'', PStr ''r1''),
          (''fields'', PDict [(''Name'', PStr ''Ada''), (''Role'', PStr ''Engineer'')])]]
      = Inr [''Name: Ada. Role: Engineer'']"
proof -
  have "prepare_texts_for_encoding other
        [[(''id'', PStr ''r1''),
          (''fields'', PDict [(''Name'', PStr ''Ada''), (''Role'', PStr ''Engineer'')])]]
      = Inr [''Name: Ada. Role: Engineer'']"
    by (simp add: prepare_texts_for_encoding_def record_fields_def dict_get_def full_text_def
        strip_def is_space_def)
  then show ?thesis
    by (simp add: full_text_def normalize_def fields_loop_acc)
qed

text \<open>
  C9 as stated fails: a record whose \<^verbatim>\<open>fields\<close> is \<^verbatim>\<open>None\<close> makes the text
  normalizer raise \<^verbatim>\<open>AttributeError\<close>, since \<^verbatim>\<open>.get('fields', {})\<close> returns the
  value stored under the key and \<^verbatim>\<open>None\<close> has no \<^verbatim>\<open>items\<close>.
\<close>

theorem prepare_texts_raises_on_non_mapping:
  "prepare_texts_for_encoding (str_other plat0) [[(''id'', PStr ''r1''), (''fields'', PNone)]] =
     Inl (Exn ''AttributeError''
       (CHR 0x27 # ''NoneType'' @ CHR 0x27 # '' object has no attribute '' @
        CHR 0x27 # ''items'' @ [CHR 0x27]))"
  by (simp add: prepare_texts_for_encoding_def record_fields_def dict_get_def)

text \<open>
  C9, amended. For every list of records in which each record's \<^verbatim>\<open>fields\<close> is a
  mapping, or the key is absent, the text normalizer does not raise and returns exactly
  one text per record, at the record's position, and a record with no eligible field
  yields the empty string. For every other list of records it raises
  \<^verbatim>\<open>AttributeError\<close> and returns no list.
\<close>

theorem prepare_texts_one_per_record:
  "(list_all fields_is_mapping records \<longrightarrow>
      (\<exists>texts. prepare_texts_for_encoding other records = Inr texts \<and>
           length texts = length records \<and>
           (\<forall>i < length records.
              texts ! i = full_text other (fields_of (records ! i)) \<and>
              (list_all (\<lambda>(k, v). \<not> isinstance_str_int_float v \<and> \<not> is_str_list v)
                (fields_of (records ! i)) \<longrightarrow> texts ! i = []))))
   \<and> (\<not> list_all fields_is_mapping records \<longrightarrow>
      (\<exists>msg. prepare_texts_for_encoding other records = Inl (Exn ''AttributeError'' msg)))"
proof (intro conjI impI)
  assume wf: "list_all fields_is_mapping records"
  show "\<exists>texts. prepare_texts_for_encoding other records = Inr texts \<and>
           length texts = length records \<and>
           (\<forall>i < length records.
              texts ! i = full_text other (fields_of (records ! i)) \<and>
              (list_all (\<lambda>(k, v). \<not> isinstance_str_int_float v \<and> \<not> is_str_list v)
                (fields_of (records ! i)) \<longrightarrow> texts ! i = []))"
    using wf
    by (simp add: prepare_texts_for_encoding_def records_loop_acc full_text_no_eligible)
next
  assume "\<not> list_all fields_is_mapping records"
  then show "\<exists>msg. prepare_texts_for_encoding other records = Inl (Exn ''AttributeError'' msg)"
    unfolding prepare_texts_for_encoding_def by (rule records_loop_raises)
qed

theorem prepare_texts_one_per_record_witness:
  "list_all fields_is_mapping
     [[(''id'', PStr ''r1''), (''fields'', PDict [(''Name'', PStr ''Ada'')])],
      [(''id'', PStr ''r2'')],
      [(''id'', PStr ''r3''),
       (''fields'', PDict [(''Photo'', PDict []), (''Links'', PList [PInt 1])])]]
   \<and> prepare_texts_for_encoding (str_other plat0)
     [[(''id'', PStr ''r1''), (''fields'', PDict [(''Name'', PStr ''Ada'')])],
      [(''id'', PStr ''r2'')],
      [(''id'', PStr ''r3''),
       (''fields'', PDict [(''Photo'', PDict []), (''Links'', PList [PInt 1])])]]
   = Inr [''Name: Ada'', [], []]
   \<and> \<not> list_all fields_is_mapping [[(''id'', PStr ''r1''), (''fields'', PList [])]]
   \<and> (\<exists>msg. prepare_texts_for_encoding (str_other plat0)
          [[(''id'', PStr ''r1''), (''fields'', PList [])]] = Inl (Exn ''AttributeError'' msg))"
proof -
  let ?rs = "[[(''id'', PStr ''r1''), (''fields'', PDict [(''Name'', PStr ''Ada'')])],
      [(''id'', PStr ''r2'')],
      [(''id'', PStr ''r3''),
       (''fields'', PDict [(''Photo'', PDict []), (''Links'', PList [PInt 1])])]]"
  let ?bad = "[[(''id'', PStr ''r1''), (''fields'', PList [])]]"
  have wf: "list_all fields_is_mapping ?rs"
    by (simp add: fields_is_mapping_def)
  have nwf: "\<not> list_all fields_is_mapping ?bad"
    by (simp add: fields_is_mapping_def)
  have 1: "prepare_texts_for_encoding (str_other plat0) ?rs = Inr [''Name: Ada'', [], []]"
    using wf prepare_texts_one_per_record [of ?rs "str_other plat0"]
    by (simp add: prepare_texts_for_encoding_def record_fields_def dict_get_def full_text_def
        strip_def is_space_def)
  have 2: "\<exists>msg. prepare_texts_for_encoding (str_other plat0) ?bad =
             Inl (Exn ''AttributeError'' msg)"
    using nwf prepare_texts_one_per_record [of ?bad "str_other plat0"] by blast
  show ?thesis using wf nwf 1 2 by blast
qed


section \<open>Properties of the search service\<close>

lemma dropWhile_Nil_iff: "dropWhile P xs = [] \<longleftrightarrow> list_all P xs"
  by (simp add: list_all_iff)

lemma strip_empty_iff: "strip s = [] \<longleftrightarrow> list_all is_space s"
proof
  assume "strip s = []"
  then have "dropWhile is_space (rev (dropWhile is_space s)) = []"
    by (simp add: strip_def)
  then have all: "list_all is_space (dropWhile is_space s)"
    by (simp add: list_all_iff)
  have "dropWhile is_space s = []"
  proof (cases "dropWhile is_space s")
    case Nil
    then show ?thesis .
  next
    case (Cons c cs)
    then have "\<not> is_space c"
      using hd_dropWhile [of is_space s] by (metis list.sel(1) list.distinct(1))
    with all Cons show ?thesis by simp
  qed
  then show "list_all is_space s" by (simp add: list_all_iff)
next
  assume "list_all is_space s"
  then have d: "dropWhile is_space s = []" by (simp add: list_all_iff)
  show "strip s = []" unfolding strip_def d by simp
qed

lemma str_nat_nonempty: "str_nat n \<noteq> []"
  by (subst str_nat.simps) simp

lemma generate_fallback:
  "generation_fails model (build_prompt plat q rs) \<Longrightarrow>
   fst (generate_ai_response plat model q rs) = fallback_response (length rs)"
  by (auto simp: generation_fails_def generate_ai_response_def Let_def
      split: option.splits sum.splits)

lemma fallback_nonempty: "fallback_response n \<noteq> []"
  by (simp add: fallback_response_def)

lemma fallback_contains_count: "\<exists>pre post. fallback_response n = pre @ str_nat n @ post"
  unfolding fallback_response_def by blast

lemma search_endpoint_retrieved:
  assumes "pinecone_index s = Some index" "strip (query request) \<noteq> []"
    "fst (embed_query plat (query request)) = Inr v"
    "index v (top_k request) True NAMESPACE = Inr matches"
  shows "fst (search_endpoint plat s request) =
     Inr \<lparr>results = map to_search_result matches,
          response_query = query request,
          total_results = int (length matches),
          ai_response = fst (generate_ai_response plat (gemini_model s) (query request)
                               (map to_search_result matches))\<rparr>"
  using assms
  by (cases "embed_query plat (query request)")
     (simp add: search_endpoint_def query_pinecone_def Let_def split_beta)

lemma startup_initialises:
  "startup_event plat = Inr s \<Longrightarrow> pinecone_index s \<noteq> None \<and> gemini_model s \<noteq> None"
  by (auto simp: startup_event_def split: sum.splits)

lemma startup_plat0: "startup_event plat0 = Inr state0"
  by (simp add: startup_event_def setup_pinecone_def setup_gemini_def env_missing_def plat0_def
      state0_def)

text \<open>
  C1. For every query and every list of results, when the generative call fails the
  answer synthesizer returns the fallback string, which is not empty and contains the
  number of results in decimal; and a request whose retrieval succeeded is answered with
  exactly the results the index returned and the fallback as its answer, not with an
  error.
\<close>

theorem generation_failure_falls_back:
  assumes "generation_fails model (build_prompt plat q rs)"
  shows "fst (generate_ai_response plat model q rs) = fallback_response (length rs)
     \<and> fallback_response (length rs) \<noteq> []
     \<and> (\<exists>pre post. fallback_response (length rs) = pre @ str_nat (length rs) @ post)
     \<and> (\<forall>s index k v matches.
          pinecone_index s = Some index \<and> gemini_model s = model \<and> strip q \<noteq> [] \<and>
          fst (embed_query plat q) = Inr v \<and> index v k True NAMESPACE = Inr matches \<and>
          rs = map to_search_result matches
          \<longrightarrow> fst (search_endpoint plat s \<lparr>query = q, top_k = k\<rparr>) =
                Inr \<lparr>results = rs, response_query = q, total_results = int (length rs),
                     ai_response = fallback_response (length rs)\<rparr>)"
proof -
  have fb: "fst (generate_ai_response plat model q rs) = fallback_response (length rs)"
    using assms by (rule generate_fallback)
  have ep: "fst (search_endpoint plat s \<lparr>query = q, top_k = k\<rparr>) =
        Inr \<lparr>results = rs, response_query = q, total_results = int (length rs),
             ai_response = fallback_response (length rs)\<rparr>"
    if "pinecone_index s = Some index" "gemini_model s = model" "strip q \<noteq> []"
       "fst (embed_query plat q) = Inr v" "index v k True NAMESPACE = Inr matches"
       "rs = map to_search_result matches"
    for s index k v matches
    using search_endpoint_retrieved [of s index "\<lparr>query = q, top_k = k\<rparr>" plat v matches] that fb
    by simp
  show ?thesis
    using fb fallback_nonempty fallback_contains_count ep by blast
qed

theorem generation_failure_falls_back_witness:
  "generation_fails (gemini_model state0)
     (build_prompt plat0 ''engineer''
        [\<lparr>score = 1/2, result_id = ''r1'', metadata = []\<rparr>])
   \<and> fst (generate_ai_response plat0 (gemini_model state0) ''engineer''
        [\<lparr>score = 1/2, result_id = ''r1'', metadata = []\<rparr>]) = fallback_response 1
   \<and> fallback_response 1 =
        ''I found 1 relevant results, but encountered an error generating a detailed response. Please check the individual results below.''
   \<and> fst (search_endpoint plat0 state0 \<lparr>query = ''engineer'', top_k = 1\<rparr>) =
        Inr \<lparr>results = [\<lparr>score = 1/2, result_id = ''r1'', metadata = []\<rparr>],
             response_query = ''engineer'', total_results = 1,
             ai_response = fallback_response 1\<rparr>"
proof -
  let ?rs = "[\<lparr>score = 1/2, result_id = ''r1'', metadata = []\<rparr>]"
  let ?ms = "[\<lparr>match_id = ''r1'', match_score = 1/2, match_metadata = None\<rparr>]"
  have h: "generation_fails (gemini_model state0) (build_prompt plat0 ''engineer'' ?rs)"
    by (simp add: generation_fails_def state0_def plat0_def)
  note t = generation_failure_falls_back [OF h]
  have c: "str_nat (Suc 0) = ''1''"
    by (subst str_nat.simps) (simp add: digit_char_def)
  have 1: "fst (generate_ai_response plat0 (gemini_model state0) ''engineer'' ?rs) =
        fallback_response 1"
    using t by simp
  have 2: "fallback_response 1 =
        ''I found 1 relevant results, but encountered an error generating a detailed response. Please check the individual results below.''"
    by (simp add: fallback_response_def c)
  have a: "pinecone_index state0 = Some (pc_Index plat0 INDEX_NAME)"
      "strip ''engineer'' \<noteq> []" "fst (embed_query plat0 ''engineer'') = Inr [1, 0]"
      "pc_Index plat0 INDEX_NAME [1, 0] 1 True NAMESPACE = Inr ?ms"
      "?rs = map to_search_result ?ms"
    by (simp_all add: state0_def plat0_def strip_def is_space_def embed_query_def
        to_search_result_def metadata_or_empty_def)
  note e = t [THEN conjunct2, THEN conjunct2, THEN conjunct2, rule_format,
      of state0 "pc_Index plat0 INDEX_NAME" "[1, 0]" 1 ?ms]
  have 3: "fst (search_endpoint plat0 state0 \<lparr>query = ''engineer'', top_k = 1\<rparr>) =
        Inr \<lparr>results = ?rs, response_query = ''engineer'', total_results = 1,
             ai_response = fallback_response 1\<rparr>"
    using e a by simp
  show ?thesis
    using h 1 2 3 by simp
qed

lemma search_endpoint_blank:
  "list_all is_space (query request) \<Longrightarrow>
   search_endpoint plat s request =
     (case pinecone_index s of
        None \<Rightarrow> (Inl (HTTPException 500 ''Pinecone not initialized''), [])
      | Some index \<Rightarrow> (Inl (HTTPException 400 ''Query cannot be empty''), []))"
  by (simp add: search_endpoint_def strip_empty_iff split: option.splits)

text \<open>
  C3. A request whose query is empty or consists of whitespace only makes no call to
  the embedding engine, the index or the generative model, and is rejected; in every
  state the startup event leaves, the rejection is the client error 400
  \<^verbatim>\<open>Query cannot be empty\<close>.
\<close>

theorem blank_query_rejected:
  assumes "list_all is_space (query request)"
  shows "snd (search_endpoint plat s request) = []
     \<and> isl (fst (search_endpoint plat s request))
     \<and> (startup_event plat = Inr s \<longrightarrow>
          search_endpoint plat s request = (Inl (HTTPException 400 ''Query cannot be empty''), []))"
  using search_endpoint_blank [OF assms, of plat s] startup_initialises [of plat s]
  by (auto split: option.splits)

theorem blank_query_rejected_witness:
  "list_all is_space (query \<lparr>query = ''  '', top_k = 5\<rparr>) \<and> startup_event plat0 = Inr state0
   \<and> search_endpoint plat0 state0 \<lparr>query = ''  '', top_k = 5\<rparr> =
        (Inl (HTTPException 400 ''Query cannot be empty''), [])"
proof -
  have h: "list_all is_space (query \<lparr>query = ''  '', top_k = 5\<rparr>)"
    by (simp add: is_space_def)
  show ?thesis
    using h blank_query_rejected [OF h, of plat0 state0] startup_plat0 by simp
qed

lemma embed_query_events:
  "snd (embed_query plat q) = [LoadModel EMBEDDING_MODEL_NAME] \<or>
   snd (embed_query plat q) = [LoadModel EMBEDDING_MODEL_NAME, Encode [q]]"
  by (simp add: embed_query_def split: sum.splits)

lemma embed_query_ok_events:
  "fst (embed_query plat q) = Inr v \<Longrightarrow>
   snd (embed_query plat q) = [LoadModel EMBEDDING_MODEL_NAME, Encode [q]]"
  by (auto simp: embed_query_def split: sum.splits)

text \<open>
  C4 as stated fails: on the example deployment a request with \<^verbatim>\<open>top_k = 0\<close> and
  a query that is not blank loads the model, encodes the query and queries the index, and
  what the caller gets is status 500 carrying the index's message.
\<close>

theorem nonpositive_top_k_reaches_embedding:
  "top_k (SearchRequest_init ''engineer'' (Some 0)) = 0
   \<and> startup_event plat0 = Inr state0
   \<and> search_endpoint plat0 state0 (SearchRequest_init ''engineer'' (Some 0)) =
       (Inl (HTTPException 500 ''Search failed: top_k must be positive''),
        [LoadModel EMBEDDING_MODEL_NAME, Encode [''engineer''],
         IndexQuery [1, 0] 0 True NAMESPACE])"
proof (intro conjI)
  show "top_k (SearchRequest_init ''engineer'' (Some 0)) = 0"
    by (simp add: SearchRequest_init_def)
  show "startup_event plat0 = Inr state0"
    by (rule startup_plat0)
  show "search_endpoint plat0 state0 (SearchRequest_init ''engineer'' (Some 0)) =
       (Inl (HTTPException 500 ''Search failed: top_k must be positive''),
        [LoadModel EMBEDDING_MODEL_NAME, Encode [''engineer''],
         IndexQuery [1, 0] 0 True NAMESPACE])"
    by (simp add: SearchRequest_init_def search_endpoint_def state0_def plat0_def
        strip_def is_space_def embed_query_def query_pinecone_def search_failed_def)
qed

text \<open>
  C4, amended. \<^verbatim>\<open>top_k\<close> is 5 when the request leaves it out. The search operation
  does not check it: for a query that is not blank, on an initialised index and with the
  embedding succeeding, the embedding engine is called first and \<^verbatim>\<open>top_k\<close> is passed
  to the index query as it is; if the index query raises, the request fails with status
  500 and the message \<^verbatim>\<open>Search failed: \<close> followed by the exception's.
\<close>

theorem top_k_default_and_passthrough:
  "top_k (SearchRequest_init q None) = 5
   \<and> (pinecone_index s = Some index \<and> strip (query request) \<noteq> [] \<and>
       fst (embed_query plat (query request)) = Inr v \<longrightarrow>
         (\<exists>rest. snd (search_endpoint plat s request) =
            [LoadModel EMBEDDING_MODEL_NAME, Encode [query request],
             IndexQuery v (top_k request) True NAMESPACE] @ rest)
       \<and> (\<forall>e. index v (top_k request) True NAMESPACE = Inl e \<longrightarrow>
            search_endpoint plat s request =
              (Inl (search_failed e),
               [LoadModel EMBEDDING_MODEL_NAME, Encode [query request],
                IndexQuery v (top_k request) True NAMESPACE])))"
proof -
  have d: "top_k (SearchRequest_init q None) = 5"
    by (simp add: SearchRequest_init_def)
  have p: "(\<exists>rest. snd (search_endpoint plat s request) =
            [LoadModel EMBEDDING_MODEL_NAME, Encode [query request],
             IndexQuery v (top_k request) True NAMESPACE] @ rest)
       \<and> (\<forall>e. index v (top_k request) True NAMESPACE = Inl e \<longrightarrow>
            search_endpoint plat s request =
              (Inl (search_failed e),
               [LoadModel EMBEDDING_MODEL_NAME, Encode [query request],
                IndexQuery v (top_k request) True NAMESPACE]))"
    if a: "pinecone_index s = Some index" "strip (query request) \<noteq> []"
       "fst (embed_query plat (query request)) = Inr v"
  proof -
    obtain ev where e: "embed_query plat (query request) = (Inr v, ev)"
      using a(3) by (cases "embed_query plat (query request)") simp
    then have ev: "ev = [LoadModel EMBEDDING_MODEL_NAME, Encode [query request]]"
      using embed_query_ok_events [OF a(3)] by simp
    show ?thesis
      using a(1,2) e ev
      by (auto simp: search_endpoint_def query_pinecone_def Let_def split_beta
          split: sum.splits)
  qed
  show ?thesis using d p by blast
qed

theorem top_k_default_and_passthrough_witness:
  "top_k (SearchRequest_init ''engineer'' None) = 5
   \<and> search_endpoint plat0 state0 (SearchRequest_init ''engineer'' (Some (- 3))) =
       (Inl (search_failed (Exn ''PineconeApiException'' ''top_k must be positive'')),
        [LoadModel EMBEDDING_MODEL_NAME, Encode [''engineer''],
         IndexQuery [1, 0] (- 3) True NAMESPACE])"
proof -
  let ?r = "SearchRequest_init ''engineer'' (Some (- 3))"
  have a: "pinecone_index state0 = Some (pc_Index plat0 INDEX_NAME)"
    "strip (query ?r) \<noteq> []" "fst (embed_query plat0 (query ?r)) = Inr [1, 0]"
    "pc_Index plat0 INDEX_NAME [1, 0] (top_k ?r) True NAMESPACE =
       Inl (Exn ''PineconeApiException'' ''top_k must be positive'')"
    by (simp_all add: state0_def plat0_def SearchRequest_init_def strip_def is_space_def
        embed_query_def)
  show ?thesis
    using a top_k_default_and_passthrough
      [of "''engineer''" state0 "pc_Index plat0 INDEX_NAME" ?r plat0 "[1, 0]"]
    by (simp add: SearchRequest_init_def)
qed

lemma search_endpoint_Inr:
  assumes "fst (search_endpoint plat s request) = Inr response"
  shows "\<exists>index v matches.
           pinecone_index s = Some index \<and> strip (query request) \<noteq> [] \<and>
           fst (embed_query plat (query request)) = Inr v \<and>
           index v (top_k request) True NAMESPACE = Inr matches"
  using assms
  by (cases "embed_query plat (query request)")
     (auto simp: search_endpoint_def query_pinecone_def Let_def split_beta
       split: option.splits if_splits sum.splits)

lemma metadata_or_empty_case:
  "metadata_or_empty m = (case m of None \<Rightarrow> [] | Some d \<Rightarrow> d)"
  by (simp add: metadata_or_empty_def split: option.splits)

text \<open>
  C10. In every search response, \<^verbatim>\<open>total_results\<close> is the length of the results,
  and the results are the index's matches in order, each with the match's id and score
  and with a mapping as its metadata: the match's own, or the empty mapping where the
  match has none (\<^verbatim>\<open>None\<close>).
\<close>

theorem search_results_have_metadata:
  assumes "fst (search_endpoint plat s request) = Inr response"
  shows "total_results response = int (length (results response))
     \<and> (\<exists>index v matches.
           pinecone_index s = Some index \<and>
           fst (embed_query plat (query request)) = Inr v \<and>
           index v (top_k request) True NAMESPACE = Inr matches \<and>
           length (results response) = length matches \<and>
           (\<forall>i < length matches.
              result_id (results response ! i) = match_id (matches ! i) \<and>
              score (results response ! i) = match_score (matches ! i) \<and>
              metadata (results response ! i) =
                (case match_metadata (matches ! i) of None \<Rightarrow> [] | Some d \<Rightarrow> d)))"
proof -
  from search_endpoint_Inr [OF assms] obtain index v matches where
    a: "pinecone_index s = Some index" "strip (query request) \<noteq> []"
       "fst (embed_query plat (query request)) = Inr v"
       "index v (top_k request) True NAMESPACE = Inr matches"
    by blast
  from search_endpoint_retrieved [OF a] assms
  have r: "results response = map to_search_result matches"
    and t: "total_results response = int (length matches)"
    by auto
  have "\<forall>i < length matches.
              result_id (results response ! i) = match_id (matches ! i) \<and>
              score (results response ! i) = match_score (matches ! i) \<and>
              metadata (results response ! i) =
                (case match_metadata (matches ! i) of None \<Rightarrow> [] | Some d \<Rightarrow> d)"
    by (simp add: r to_search_result_def metadata_or_empty_case)
  with a r t show ?thesis by auto
qed

theorem search_results_have_metadata_witness:
  "fst (search_endpoint plat0 state0 \<lparr>query = ''engineer'', top_k = 1\<rparr>) =
     Inr \<lparr>results = [\<lparr>score = 1/2, result_id = ''r1'', metadata = []\<rparr>],
          response_query = ''engineer'', total_results = 1,
          ai_response = fallback_response 1\<rparr>
   \<and> total_results \<lparr>results = [\<lparr>score = 1/2, result_id = ''r1'', metadata = []\<rparr>],
          response_query = ''engineer'', total_results = 1,
          ai_response = fallback_response 1\<rparr> =
       int (length (results \<lparr>results = [\<lparr>score = 1/2, result_id = ''r1'', metadata = []\<rparr>],
          response_query = ''engineer'', total_results = 1,
          ai_response = fallback_response 1\<rparr>))"
proof -
  have h: "fst (search_endpoint plat0 state0 \<lparr>query = ''engineer'', top_k = 1\<rparr>) =
     Inr \<lparr>results = [\<lparr>score = 1/2, result_id = ''r1'', metadata = []\<rparr>],
          response_query = ''engineer'', total_results = 1,
          ai_response = fallback_response 1\<rparr>"
    by (simp add: search_endpoint_def state0_def plat0_def strip_def is_space_def
        embed_query_def query_pinecone_def generate_ai_response_def to_search_result_def
        metadata_or_empty_def Let_def)
  show ?thesis
    using h search_results_have_metadata [OF h] by simp
qed

lemma model_loads_append: "model_loads (xs @ ys) = model_loads xs + model_loads ys"
  by (simp add: model_loads_def)

lemma embed_query_loads: "model_loads (snd (embed_query plat q)) = 1"
  by (simp add: embed_query_def model_loads_def is_load_def split: sum.splits)

lemma generate_vectors_loads: "model_loads (snd (generate_vectors plat texts)) = 1"
  by (simp add: generate_vectors_def model_loads_def is_load_def split: sum.splits)

lemma embed_queries_loads:
  "model_loads (concat (map (\<lambda>q. snd (embed_query plat q)) qs)) = length qs"
  by (induction qs) (simp_all add: model_loads_append embed_query_loads, simp add: model_loads_def)

text \<open>
  C5 as stated fails: two calls of \<^verbatim>\<open>embed_query\<close>, and two search requests, in one
  process construct the embedding model twice.
\<close>

theorem embed_query_reloads_model:
  "model_loads (snd (embed_query plat0 ''engineer'') @ snd (embed_query plat0 ''engineer'')) = 2
   \<and> model_loads (snd (search_endpoint plat0 state0 \<lparr>query = ''engineer'', top_k = 1\<rparr>) @
                  snd (search_endpoint plat0 state0 \<lparr>query = ''engineer'', top_k = 1\<rparr>)) = 2"
  by (simp add: model_loads_append embed_query_loads search_endpoint_def state0_def plat0_def
      strip_def is_space_def embed_query_def query_pinecone_def generate_ai_response_def
      model_loads_def is_load_def Let_def)

text \<open>
  C5, amended. \<^verbatim>\<open>generate_vectors\<close> constructs the model once, first, and encodes
  the whole batch in at most one call; every call of \<^verbatim>\<open>embed_query\<close> constructs a
  model, so \<open>n\<close> queries in one process construct \<open>n\<close> of them.
\<close>

theorem model_loaded_once_per_call:
  "model_loads (snd (generate_vectors plat texts)) = 1
   \<and> (\<exists>rest. snd (generate_vectors plat texts) = LoadModel EMBEDDING_MODEL_NAME # rest \<and>
         (rest = [] \<or> rest = [Encode texts]))
   \<and> model_loads (snd (embed_query plat q)) = 1
   \<and> model_loads (concat (map (\<lambda>q. snd (embed_query plat q)) qs)) = length qs"
proof -
  have "\<exists>rest. snd (generate_vectors plat texts) = LoadModel EMBEDDING_MODEL_NAME # rest \<and>
         (rest = [] \<or> rest = [Encode texts])"
    by (simp add: generate_vectors_def split: sum.splits)
  then show ?thesis
    using generate_vectors_loads embed_query_loads embed_queries_loads by blast
qed

section \<open>Properties of the vector store and of ingestion\<close>

lemma map_of_append_absent: "map_of st k = None \<Longrightarrow> map_of (st @ [(k, v)]) = (map_of st)(k \<mapsto> v)"
  by (induction st) (auto simp: fun_eq_iff)

lemma map_of_store_put: "map_of (store_put name idx st) = (map_of st)(name \<mapsto> idx)"
  by (induction st) (auto simp: fun_eq_iff)

lemma store_put_same: "map_of st name = Some idx \<Longrightarrow> store_put name idx st = st"
  by (induction st) (auto split: if_splits)

lemma store_put_twice: "store_put name j (store_put name i st) = store_put name j st"
  by (induction st) auto

lemma ensure_index_absent:
  "map_of st INDEX_NAME = None \<Longrightarrow> ensure_index st = Inr (st @ [(INDEX_NAME, dense384)])"
  by (simp add: ensure_index_def has_index_def create_index_def dense384_def)

lemma ensure_index_present:
  "map_of st INDEX_NAME = Some idx \<Longrightarrow> ensure_index st = Inr st"
  by (simp add: ensure_index_def has_index_def)

text \<open>
  C6. In every state of the store: when no index has the name, \<^verbatim>\<open>ensure_index\<close>
  succeeds and the store then has, under that name, an empty dense index of dimension 384
  with the cosine metric, every other name being as before; when an index has the name,
  whatever its dimension and metric, the result is the store as it was, with no error.
\<close>

theorem ensure_index_creates_iff_absent:
  "(map_of st INDEX_NAME = None \<longrightarrow>
      (\<exists>st'. ensure_index st = Inr st' \<and>
         map_of st' INDEX_NAME =
           Some \<lparr>index_vector_type = ''dense'', index_dimension = 384, index_metric = ''cosine'',
                 index_cloud = ''aws'', index_region = ''us-east-1'', contents = []\<rparr> \<and>
         (\<forall>n. n \<noteq> INDEX_NAME \<longrightarrow> map_of st' n = map_of st n)))
   \<and> (\<forall>idx. map_of st INDEX_NAME = Some idx \<longrightarrow> ensure_index st = Inr st)"
proof (intro conjI impI allI)
  assume a: "map_of st INDEX_NAME = None"
  have "map_of (st @ [(INDEX_NAME, dense384)]) = (map_of st)(INDEX_NAME \<mapsto> dense384)"
    using a by (rule map_of_append_absent)
  then show "\<exists>st'. ensure_index st = Inr st' \<and>
         map_of st' INDEX_NAME =
           Some \<lparr>index_vector_type = ''dense'', index_dimension = 384, index_metric = ''cosine'',
                 index_cloud = ''aws'', index_region = ''us-east-1'', contents = []\<rparr> \<and>
         (\<forall>n. n \<noteq> INDEX_NAME \<longrightarrow> map_of st' n = map_of st n)"
    using ensure_index_absent [OF a] by (simp add: dense384_def)
next
  fix idx assume "map_of st INDEX_NAME = Some idx"
  then show "ensure_index st = Inr st" by (rule ensure_index_present)
qed

theorem ensure_index_creates_iff_absent_witness:
  "ensure_index [] = Inr [(INDEX_NAME, dense384)]
   \<and> ensure_index [(INDEX_NAME, other_index)] = Inr [(INDEX_NAME, other_index)]"
proof -
  have a: "map_of ([] :: store) INDEX_NAME = None" by simp
  have b: "map_of [(INDEX_NAME, other_index)] INDEX_NAME = Some other_index" by simp
  from ensure_index_creates_iff_absent [of "[]"] a
  obtain st' where s: "ensure_index [] = Inr st'" by blast
  have 1: "ensure_index [] = Inr [(INDEX_NAME, dense384)]"
    using s by (simp add: ensure_index_def has_index_def create_index_def dense384_def)
  have 2: "ensure_index [(INDEX_NAME, other_index)] = Inr [(INDEX_NAME, other_index)]"
    using ensure_index_creates_iff_absent [of "[(INDEX_NAME, other_index)]"] b by blast
  show ?thesis using 1 2 by blast
qed

lemma upsert_one_Nil: "upsert_one ns e [] = [(ns, e)]"
  by (simp add: upsert_one_def)

lemma filter_upsert_one:
  "filter (\<lambda>(n, x). \<not> (n = ns \<and> entry_id x \<in> entry_id ` set es)) (upsert_one ns e cs)
     = filter (\<lambda>(n, x). \<not> (n = ns \<and> entry_id x \<in> entry_id ` set (e # es))) cs
       @ filter (\<lambda>(n, x). \<not> (n = ns \<and> entry_id x \<in> entry_id ` set es)) [(ns, e)]"
  by (auto simp: upsert_one_def intro!: filter_cong)

lemma fold_upsert_one_split:
  "fold (upsert_one ns) es cs =
     filter (\<lambda>(n, x). \<not> (n = ns \<and> entry_id x \<in> entry_id ` set es)) cs @ fold (upsert_one ns) es []"
proof (induction es arbitrary: cs)
  case Nil
  show ?case by simp
next
  case (Cons e es)
  let ?P = "\<lambda>(n, x). \<not> (n = ns \<and> entry_id x \<in> entry_id ` set es)"
  let ?Q = "\<lambda>(n, x). \<not> (n = ns \<and> entry_id x \<in> entry_id ` set (e # es))"
  have hd: "fold (upsert_one ns) (e # es) [] = filter ?P [(ns, e)] @ fold (upsert_one ns) es []"
  proof -
    have "fold (upsert_one ns) (e # es) [] = fold (upsert_one ns) es [(ns, e)]"
      by (simp add: upsert_one_Nil)
    also have "\<dots> = filter ?P [(ns, e)] @ fold (upsert_one ns) es []"
      by (rule Cons.IH)
    finally show ?thesis .
  qed
  have "fold (upsert_one ns) (e # es) cs = fold (upsert_one ns) es (upsert_one ns e cs)"
    by simp
  also have "\<dots> = filter ?P (upsert_one ns e cs) @ fold (upsert_one ns) es []"
    by (rule Cons.IH)
  also have "\<dots> = (filter ?Q cs @ filter ?P [(ns, e)]) @ fold (upsert_one ns) es []"
    by (simp only: filter_upsert_one)
  also have "\<dots> = filter ?Q cs @ fold (upsert_one ns) (e # es) []"
    by (simp only: hd append_assoc)
  finally show ?case .
qed

lemma upsert_one_ids:
  "(n, x) \<in> set (upsert_one ns e cs) \<Longrightarrow> (n, x) \<in> set cs \<or> (n = ns \<and> x = e)"
  by (auto simp: upsert_one_def)

lemma fold_upsert_one_ids:
  "(n, x) \<in> set (fold (upsert_one ns) es []) \<Longrightarrow> n = ns \<and> entry_id x \<in> entry_id ` set es"
proof (induction es rule: rev_induct)
  case Nil
  then show ?case by simp
next
  case (snoc e es)
  from snoc.prems have "(n, x) \<in> set (upsert_one ns e (fold (upsert_one ns) es []))"
    by simp
  then have "(n, x) \<in> set (fold (upsert_one ns) es []) \<or> (n = ns \<and> x = e)"
    by (rule upsert_one_ids)
  with snoc.IH show ?case by auto
qed

lemma fold_upsert_one_idem:
  "fold (upsert_one ns) es (fold (upsert_one ns) es cs) = fold (upsert_one ns) es cs"
proof -
  let ?P = "\<lambda>(n, x). \<not> (n = ns \<and> entry_id x \<in> entry_id ` set es)"
  let ?D = "fold (upsert_one ns) es []"
  have D: "filter ?P ?D = []"
    using fold_upsert_one_ids [of _ _ ns es] by (auto simp: filter_empty_conv)
  have s: "fold (upsert_one ns) es cs = filter ?P cs @ ?D"
    by (rule fold_upsert_one_split)
  have "fold (upsert_one ns) es (fold (upsert_one ns) es cs)
      = filter ?P (fold (upsert_one ns) es cs) @ ?D"
    by (rule fold_upsert_one_split)
  also have "filter ?P (fold (upsert_one ns) es cs) = filter ?P (filter ?P cs @ ?D)"
    by (simp only: s [symmetric])
  also have "\<dots> = filter ?P cs"
    using D by simp
  finally show ?thesis
    by (simp only: s)
qed

lemma index_upsert_idem: "index_upsert (index_upsert idx ns es) ns es = index_upsert idx ns es"
  by (simp add: index_upsert_def fold_upsert_one_idem)

lemma insert_into_vector_db_result:
  "\<exists>idx. map_of (case ensure_index st of Inr s \<Rightarrow> s | Inl e \<Rightarrow> []) INDEX_NAME = Some idx \<and>
     insert_into_vector_db st payload =
       Inr (store_put INDEX_NAME
              (index_upsert idx ''airtable-namespace'' (map to_pinecone_record payload))
              (case ensure_index st of Inr s \<Rightarrow> s | Inl e \<Rightarrow> []))"
proof (cases "map_of st INDEX_NAME")
  case None
  have "map_of (st @ [(INDEX_NAME, dense384)]) INDEX_NAME = Some dense384"
    using map_of_append_absent [OF None, of dense384] by simp
  then show ?thesis
    using ensure_index_absent [OF None]
    by (simp add: insert_into_vector_db_def store_upsert_def)
next
  case (Some idx)
  then show ?thesis
    using ensure_index_present [OF Some]
    by (simp add: insert_into_vector_db_def store_upsert_def)
qed

lemma insert_into_vector_db_retry:
  "\<exists>st1. insert_into_vector_db st payload = Inr st1 \<and> insert_into_vector_db st1 payload = Inr st1"
proof -
  let ?es = "map to_pinecone_record payload"
  from insert_into_vector_db_result [of st payload] obtain idx s where
    r: "insert_into_vector_db st payload =
          Inr (store_put INDEX_NAME (index_upsert idx ''airtable-namespace'' ?es) s)"
    by blast
  let ?i1 = "index_upsert idx ''airtable-namespace'' ?es"
  let ?st1 = "store_put INDEX_NAME ?i1 s"
  have m: "map_of ?st1 INDEX_NAME = Some ?i1"
    by (simp add: map_of_store_put)
  have "insert_into_vector_db ?st1 payload =
          Inr (store_put INDEX_NAME (index_upsert ?i1 ''airtable-namespace'' ?es) ?st1)"
    using ensure_index_present [OF m] m
    by (simp add: insert_into_vector_db_def store_upsert_def)
  also have "\<dots> = Inr ?st1"
    by (simp add: index_upsert_idem store_put_twice)
  finally show ?thesis using r by blast
qed

text \<open>
  C7. For entries with one id written one after the other into a namespace, the
  namespace then holds exactly one entry with that id, the second one with its vector,
  and the total vector count after the second write is the count after the first.
  Writing a batch a second time changes nothing, in the index and in the store
  \<^verbatim>\<open>insert_into_vector_db\<close> leaves.
\<close>

theorem upsert_twice_last_write_wins:
  assumes "entry_id e2 = entry_id e1"
  shows "filter (\<lambda>x. entry_id x = entry_id e1)
           (ns_entries (index_upsert (index_upsert idx ns [e1]) ns [e2]) ns) = [e2]
     \<and> total_vector_count (index_upsert (index_upsert idx ns [e1]) ns [e2]) =
         total_vector_count (index_upsert idx ns [e1])
     \<and> index_upsert (index_upsert idx ns es) ns es = index_upsert idx ns es
     \<and> (\<exists>st1. insert_into_vector_db st payload = Inr st1 \<and>
               insert_into_vector_db st1 payload = Inr st1)"
proof -
  have 1: "filter (\<lambda>x. entry_id x = entry_id e1)
           (ns_entries (index_upsert (index_upsert idx ns [e1]) ns [e2]) ns) = [e2]"
    using assms
    by (auto simp: ns_entries_def index_upsert_def upsert_one_def filter_map comp_def
        filter_empty_conv split_beta)
  have 2: "total_vector_count (index_upsert (index_upsert idx ns [e1]) ns [e2]) =
         total_vector_count (index_upsert idx ns [e1])"
    using assms
    by (simp add: total_vector_count_def index_upsert_def upsert_one_def case_prod_unfold)
  show ?thesis
    using 1 2 index_upsert_idem insert_into_vector_db_retry by blast
qed

theorem upsert_twice_last_write_wins_witness:
  "entry_id \<lparr>entry_id = ''r1'', entry_values = [0, 1], entry_metadata = []\<rparr> =
     entry_id \<lparr>entry_id = ''r1'', entry_values = [1, 0], entry_metadata = []\<rparr>
   \<and> ns_entries
        (index_upsert
           (index_upsert dense384 ''ns''
              [\<lparr>entry_id = ''r1'', entry_values = [1, 0], entry_metadata = []\<rparr>])
           ''ns'' [\<lparr>entry_id = ''r1'', entry_values = [0, 1], entry_metadata = []\<rparr>]) ''ns''
       = [\<lparr>entry_id = ''r1'', entry_values = [0, 1], entry_metadata = []\<rparr>]
   \<and> total_vector_count
        (index_upsert
           (index_upsert dense384 ''ns''
              [\<lparr>entry_id = ''r1'', entry_values = [1, 0], entry_metadata = []\<rparr>])
           ''ns'' [\<lparr>entry_id = ''r1'', entry_values = [0, 1], entry_metadata = []\<rparr>]) = 1"
proof -
  let ?e1 = "\<lparr>entry_id = ''r1'', entry_values = [1, 0], entry_metadata = []\<rparr>"
  let ?e2 = "\<lparr>entry_id = ''r1'', entry_values = [0, 1], entry_metadata = []\<rparr>"
  have h: "entry_id ?e2 = entry_id ?e1" by simp
  have c: "total_vector_count (index_upsert dense384 ''ns'' [?e1]) = 1"
    by (simp add: total_vector_count_def index_upsert_def upsert_one_def dense384_def)
  have n: "ns_entries (index_upsert (index_upsert dense384 ''ns'' [?e1]) ''ns'' [?e2]) ''ns''
       = [?e2]"
    by (simp add: ns_entries_def index_upsert_def upsert_one_def dense384_def)
  show ?thesis
    using h c n upsert_twice_last_write_wins [OF h, of dense384 "''ns''" "[]" "[]" "[]"]
    by simp
qed

lemma sorted_by_score:
  "sorted_wrt (\<lambda>a b. match_score b \<le> match_score a) (sort_key (\<lambda>m. - match_score m) ms)"
proof -
  have "sorted (map (\<lambda>m. - match_score m) (sort_key (\<lambda>m. - match_score m) ms))"
    by (rule sorted_sort_key)
  then show ?thesis
    by (simp add: sorted_map)
qed

lemma query_pinecone_passes:
  "fst (query_pinecone (index_handle_of sim idx) v k md) = index_query sim idx NAMESPACE v k md"
  by (simp add: query_pinecone_def index_handle_of_def)

text \<open>
  C8. For every query of an index with a positive \<^verbatim>\<open>top_k\<close>, the result is a list
  of matches, not an error; its scores do not increase along the list; it is at most
  \<^verbatim>\<open>top_k\<close> long; it is empty when the namespace holds nothing; and
  \<^verbatim>\<open>query_pinecone\<close> returns what the index returns for \<^verbatim>\<open>airtable-namespace\<close>.
\<close>

theorem query_ranked_and_bounded:
  assumes "0 < k"
  shows "\<exists>ms. index_query sim idx ns v k md = Inr ms
       \<and> sorted_wrt (\<lambda>a b. match_score b \<le> match_score a) ms
       \<and> int (length ms) \<le> k
       \<and> (ns_entries idx ns = [] \<longrightarrow> ms = [])
       \<and> fst (query_pinecone (index_handle_of sim idx) v k md) =
           index_query sim idx NAMESPACE v k md"
proof -
  let ?all = "sort_key (\<lambda>m. - match_score m) (map (to_match sim v md) (ns_entries idx ns))"
  have q: "index_query sim idx ns v k md = Inr (take (nat k) ?all)"
    using assms by (simp add: index_query_def)
  have s: "sorted_wrt (\<lambda>a b. match_score b \<le> match_score a) (take (nat k) ?all)"
    using sorted_by_score by (rule sorted_wrt_take)
  have l: "int (length (take (nat k) ?all)) \<le> k"
    using assms by simp
  have e: "ns_entries idx ns = [] \<longrightarrow> take (nat k) ?all = []"
    by simp
  show ?thesis
    using q s l e query_pinecone_passes by blast
qed

theorem query_ranked_and_bounded_witness:
  "(0::int) < 2
   \<and> index_query dot index0 ''ns'' [1, 0] 2 True =
       Inr [\<lparr>match_id = ''r2'', match_score = 1, match_metadata = Some []\<rparr>,
            \<lparr>match_id = ''r3'', match_score = 1, match_metadata = Some []\<rparr>]
   \<and> index_query dot index0 ''absent'' [1, 0] 2 True = Inr []"
proof -
  have h: "(0::int) < 2" by simp
  have c: "contents index0 =
      [(''ns'', \<lparr>entry_id = ''r1'', entry_values = [0, 1], entry_metadata = []\<rparr>),
       (''ns'', \<lparr>entry_id = ''r2'', entry_values = [1, 0], entry_metadata = []\<rparr>),
       (''ns'', \<lparr>entry_id = ''r3'', entry_values = [1, 1], entry_metadata = []\<rparr>)]"
    by (simp add: index0_def index_upsert_def upsert_one_def dense384_def)
  have 1: "index_query dot index0 ''ns'' [1, 0] 2 True =
       Inr [\<lparr>match_id = ''r2'', match_score = 1, match_metadata = Some []\<rparr>,
            \<lparr>match_id = ''r3'', match_score = 1, match_metadata = Some []\<rparr>]"
    by (simp add: index_query_def ns_entries_def c to_match_def dot_def)
  have 2: "index_query dot index0 ''absent'' [1, 0] 2 True = Inr []"
    using query_ranked_and_bounded [OF h, of dot index0 "''absent''" "[1, 0]" True]
    by (auto simp: ns_entries_def c)
  show ?thesis using h 1 2 by blast
qed

end
